theory Spec2Isabelle
  imports Complex_Main "HOL-Library.AList"
begin

section \<open>OncoHotspot: the mutation frequency aggregation engine\<close>

text \<open>
  A shallow embedding of \<^verbatim>\<open>ProductionAggregator\<close> (pipeline_production_ready.py), of the
  denominator resolvers and Wilson interval of \<^verbatim>\<open>CleanAggregator\<close> (pipeline_clean.py) and
  \<^verbatim>\<open>MutationAggregator\<close> (gold/aggregators/mutation_aggregator_fixed.py), and of
  \<^verbatim>\<open>VariantHarmonizer\<close> (silver/transformers/variant_harmonizer.py).

  Conventions of the embedding.
  \<^item> A Python dict with a fixed set of keys read by \<^verbatim>\<open>.get\<close> is a record of optional
    fields: \<open>None\<close> is an absent key. Sample counts are integers where present and
    identifiers are strings where present.
  \<^item> A dict that is filled in a loop is an association list in insertion order (the
    iteration order of a Python dict); a Python set is a list without duplicates, read
    through \<open>set\<close> and \<open>length\<close> (Python leaves the order of \<^verbatim>\<open>list(a_set)\<close> open).
  \<^item> Python floats are real numbers and \<^verbatim>\<open>round(x, 4)\<close> rounds \<open>x * 10^4\<close> to the
    nearest integer, ties to even. The binary rounding error of the float operations is
    not part of the model.
  \<^item> A raised \<^verbatim>\<open>AssertionError\<close> is the \<open>Inl\<close> of a sum; a call of the logger appends an
    event to a list that is returned beside the result.
\<close>

subsection \<open>Data model\<close>

datatype DataQuality = POPULATION_FREQUENCY | OCCURRENCE_COUNT | CLINICAL_ANNOTATION

fun DataQuality_value :: "DataQuality \<Rightarrow> string" where
  "DataQuality_value POPULATION_FREQUENCY = ''population_frequency''"
| "DataQuality_value OCCURRENCE_COUNT = ''occurrence_count''"
| "DataQuality_value CLINICAL_ANNOTATION = ''clinical_annotation''"

record MutationFrequency =
  gene_symbol :: string
  cancer_type :: string
  protein_change :: string
  samples_with_mutation :: int
  total_samples_tested :: int
  frequency :: real
  ci_95_low :: real
  ci_95_high :: real
  source :: string
  study_ids :: "string list"
  quality_tier :: DataQuality

text \<open>The three assertions of \<^verbatim>\<open>MutationFrequency.__post_init__\<close>, in their order.\<close>

datatype AssertionError =
    InvalidCounts int int
  | InvalidFrequency real
  | FrequencyOutsideCI

definition post_init :: "MutationFrequency \<Rightarrow> AssertionError + MutationFrequency" where
  "post_init m =
     (if \<not> samples_with_mutation m \<le> total_samples_tested m
        then Inl (InvalidCounts (samples_with_mutation m) (total_samples_tested m))
      else if \<not> (0 \<le> frequency m \<and> frequency m \<le> 1)
        then Inl (InvalidFrequency (frequency m))
      else if \<not> (ci_95_low m \<le> frequency m \<and> frequency m \<le> ci_95_high m)
        then Inl FrequencyOutsideCI
      else Inr m)"

text \<open>A study of the cBioPortal study list and a mutation row, as the aggregators read them.\<close>

record study =
  studyId :: "string option"
  cancer_study_identifier :: "string option"
  sequencedSampleCount :: "int option"
  allSampleCount :: "int option"
  numberOfSamples :: "int option"
  cnaSampleCount :: "int option"
  cancerType_name :: "string option"
  name :: "string option"

record mutation =
  mut_studyId :: "string option"
  hugoGeneSymbol :: "string option"
  proteinChange :: "string option"
  sampleId :: "string option"

record denominator =
  total_samples :: int
  denom_cancer_type :: string

datatype log_event =
    StudyInfo string int
  | SkippingMutation "string option"
  | SuspiciouslyHigh string real
  | FrequencyTooLow string string
  | IntervalTooWide string real
  | RejectedImplausible string string string real
  | DataIntegrityError AssertionError

subsection \<open>Python helpers\<close>

definition get_or :: "'a option \<Rightarrow> 'a \<Rightarrow> 'a" where
  \<comment> \<open>\<^verbatim>\<open>d.get(key, default)\<close> for a key whose value is \<open>v\<close> when present\<close>
  "get_or v d = (case v of None \<Rightarrow> d | Some x \<Rightarrow> x)"

definition or_int :: "int \<Rightarrow> int \<Rightarrow> int" where
  \<comment> \<open>\<^verbatim>\<open>a or b\<close> on integers: \<open>a\<close> when it is truthy (non-zero)\<close>
  "or_int a b = (if a \<noteq> 0 then a else b)"

fun startswith :: "string \<Rightarrow> string \<Rightarrow> bool" where
  \<comment> \<open>\<^verbatim>\<open>s.startswith(p)\<close>, the prefix first\<close>
  "startswith [] s = True"
| "startswith (p # ps) [] = False"
| "startswith (p # ps) (c # cs) = (p = c \<and> startswith ps cs)"

fun str_in :: "string \<Rightarrow> string \<Rightarrow> bool" where
  \<comment> \<open>\<^verbatim>\<open>sub in s\<close> on strings\<close>
  "str_in sub [] = (sub = [])"
| "str_in sub (c # cs) = (startswith sub (c # cs) \<or> str_in sub cs)"

definition set_add :: "'a \<Rightarrow> 'a list \<Rightarrow> 'a list" where
  \<comment> \<open>\<^verbatim>\<open>a_set.add(x)\<close>\<close>
  "set_add x xs = (if x \<in> set xs then xs else xs @ [x])"

definition round_half_even :: "real \<Rightarrow> int" where
  "round_half_even x =
     (let f = \<lfloor>x\<rfloor>; d = x - of_int f
      in if d < 1 / 2 then f else if 1 / 2 < d then f + 1
         else if even f then f else f + 1)"

definition round4 :: "real \<Rightarrow> real" where
  \<comment> \<open>\<^verbatim>\<open>round(x, 4)\<close>\<close>
  "round4 x = of_int (round_half_even (x * 10000)) / 10000"

subsection \<open>Sample-denominator resolution\<close>

text \<open>
  \<^verbatim>\<open>ProductionAggregator.process_cbioportal_with_frequencies\<close>, lines 80-92:
  \<^verbatim>\<open>sample_count = study.get('sequencedSampleCount', 0) or study.get('allSampleCount', 0)\<close>,
  and the study enters the dict \<^verbatim>\<open>if study_id and sample_count > 0\<close>.
\<close>

definition sample_count :: "study \<Rightarrow> int" where
  "sample_count st = or_int (get_or (sequencedSampleCount st) 0) (get_or (allSampleCount st) 0)"

definition denominator_step ::
  "study \<Rightarrow> (string \<rightharpoonup> denominator) \<Rightarrow> (string \<rightharpoonup> denominator) \<times> log_event list" where
  "denominator_step st sd =
     (case studyId st of
        None \<Rightarrow> (sd, [])
      | Some study_id \<Rightarrow>
          if study_id \<noteq> [] \<and> sample_count st > 0
          then (sd(study_id \<mapsto>
                  \<lparr>total_samples = sample_count st,
                   denom_cancer_type = get_or (cancerType_name st) ''Unknown''\<rparr>),
                [StudyInfo study_id (sample_count st)])
          else (sd, []))"

fun build_study_denominators ::
  "study list \<Rightarrow> (string \<rightharpoonup> denominator) \<Rightarrow> (string \<rightharpoonup> denominator) \<times> log_event list" where
  "build_study_denominators [] sd = (sd, [])"
| "build_study_denominators (st # sts) sd =
     (let (sd', l) = denominator_step st sd;
          (sd'', ls) = build_study_denominators sts sd'
      in (sd'', l @ ls))"

text \<open>
  \<^verbatim>\<open>CleanAggregator.aggregate_cbioportal\<close>, lines 76-91: the same two fields, then the
  literal 0, and the same guard.
\<close>

definition clean_sample_count :: "study \<Rightarrow> int" where
  "clean_sample_count st =
     or_int (or_int (get_or (sequencedSampleCount st) 0) (get_or (allSampleCount st) 0)) 0"

definition clean_study_info_step ::
  "study \<Rightarrow> (string \<rightharpoonup> denominator) \<Rightarrow> (string \<rightharpoonup> denominator)" where
  "clean_study_info_step st si =
     (case studyId st of
        None \<Rightarrow> si
      | Some study_id \<Rightarrow>
          if study_id \<noteq> [] \<and> clean_sample_count st > 0
          then si(study_id \<mapsto>
                  \<lparr>total_samples = clean_sample_count st,
                   denom_cancer_type = get_or (cancerType_name st) ''Unknown''\<rparr>)
          else si)"

fun clean_study_info :: "study list \<Rightarrow> (string \<rightharpoonup> denominator) \<Rightarrow> (string \<rightharpoonup> denominator)" where
  "clean_study_info [] si = si"
| "clean_study_info (st # sts) si = clean_study_info sts (clean_study_info_step st si)"

text \<open>
  \<^verbatim>\<open>MutationAggregator._extract_study_sample_counts\<close> (mutation_aggregator_fixed.py, lines
  64-80): four fields in another order, then the default 100; the dict is keyed by the
  cancer type, and every study is stored.
\<close>

definition gold_sample_count :: "study \<Rightarrow> int" where
  "gold_sample_count st =
     or_int (or_int (or_int (or_int (get_or (numberOfSamples st) 0)
                                    (get_or (allSampleCount st) 0))
                            (get_or (cnaSampleCount st) 0))
                    (get_or (sequencedSampleCount st) 0))
            100"

definition gold_cancer_type :: "study \<Rightarrow> string option" where
  \<comment> \<open>\<^verbatim>\<open>study.get('cancerType', {}).get('name', study.get('name', study_id))\<close>\<close>
  "gold_cancer_type st =
     (case cancerType_name st of
        Some c \<Rightarrow> Some c
      | None \<Rightarrow>
          (case name st of
             Some n \<Rightarrow> Some n
           | None \<Rightarrow>
               (case studyId st of
                  Some i \<Rightarrow> Some i
                | None \<Rightarrow> cancer_study_identifier st)))"

fun extract_study_sample_counts ::
  "study list \<Rightarrow> (string option \<rightharpoonup> int) \<Rightarrow> (string option \<rightharpoonup> int)" where
  "extract_study_sample_counts [] counts = counts"
| "extract_study_sample_counts (st # sts) counts =
     extract_study_sample_counts sts (counts(gold_cancer_type st \<mapsto> gold_sample_count st))"

subsection \<open>Grouping\<close>

record agg_data =
  samples :: "string list"
  studies :: "string list"
  study_denominators :: "(string \<times> int) list"

definition empty_agg :: agg_data where
  "empty_agg = \<lparr>samples = [], studies = [], study_denominators = []\<rparr>"

type_synonym agg_key = "string \<times> string \<times> string"

definition sample_key :: "string \<Rightarrow> mutation \<Rightarrow> string" where
  \<comment> \<open>\<^verbatim>\<open>f"{study_id}:{mut.get('sampleId')}"\<close>; an absent sample id prints as \<^verbatim>\<open>None\<close>\<close>
  "sample_key study_id mut = study_id @ '':'' @ get_or (sampleId mut) ''None''"

definition add_to_group :: "string \<Rightarrow> mutation \<Rightarrow> int \<Rightarrow> agg_data \<Rightarrow> agg_data" where
  "add_to_group study_id mut n agg =
     \<lparr>samples = set_add (sample_key study_id mut) (samples agg),
      studies = set_add study_id (studies agg),
      study_denominators = AList.update study_id n (study_denominators agg)\<rparr>"

definition aggregate_step ::
  "(string \<rightharpoonup> denominator) \<Rightarrow> mutation \<Rightarrow> (agg_key \<times> agg_data) list
     \<Rightarrow> (agg_key \<times> agg_data) list \<times> log_event list" where
  "aggregate_step sd mut aggregated =
     (case mut_studyId mut of
        None \<Rightarrow> (aggregated, [SkippingMutation None])
      | Some study_id \<Rightarrow>
          (case sd study_id of
             None \<Rightarrow> (aggregated, [SkippingMutation (Some study_id)])
           | Some den \<Rightarrow>
               (let key = (get_or (hugoGeneSymbol mut) ''Unknown'',
                           denom_cancer_type den,
                           get_or (proteinChange mut) ''Unknown'')
                in (AList.update_with_aux empty_agg key
                      (add_to_group study_id mut (total_samples den)) aggregated, []))))"

fun aggregate_mutations ::
  "(string \<rightharpoonup> denominator) \<Rightarrow> mutation list \<Rightarrow> (agg_key \<times> agg_data) list
     \<Rightarrow> (agg_key \<times> agg_data) list \<times> log_event list" where
  "aggregate_mutations sd [] aggregated = (aggregated, [])"
| "aggregate_mutations sd (mut # muts) aggregated =
     (let (aggregated', l) = aggregate_step sd mut aggregated;
          (aggregated'', ls) = aggregate_mutations sd muts aggregated'
      in (aggregated'', l @ ls))"

subsection \<open>Wilson score interval\<close>

text \<open>
  \<^verbatim>\<open>ProductionAggregator._calculate_wilson_ci\<close>. The quantile
  \<^verbatim>\<open>z = stats.norm.ppf((1 + confidence) / 2)\<close> comes from scipy, which is no part of the
  repository: it is the parameter \<open>z\<close>.
\<close>

definition calculate_wilson_ci :: "real \<Rightarrow> int \<Rightarrow> int \<Rightarrow> real \<times> real \<times> real" where
  "calculate_wilson_ci z successes trials =
     (if trials = 0 then (0, 0, 0)
      else
        let p_hat = real_of_int successes / real_of_int trials;
            denominator = 1 + z\<^sup>2 / real_of_int trials;
            center = (p_hat + z\<^sup>2 / (2 * real_of_int trials)) / denominator;
            margin = z * sqrt (p_hat * (1 - p_hat) / real_of_int trials
                               + z\<^sup>2 / (4 * (real_of_int trials)\<^sup>2)) / denominator
        in (round4 p_hat, round4 (max 0 (center - margin)), round4 (min 1 (center + margin))))"


subsection \<open>Plausibility validation\<close>

record constraints =
  min_freq :: real
  cancer_types :: "string list"

definition known_hotspots :: "((string \<times> string) \<times> constraints) list" where
  "known_hotspots =
     [((''KRAS'', ''G12D''), \<lparr>min_freq = 5 / 100, cancer_types = [''Pancreatic'', ''Colorectal'']\<rparr>),
      ((''BRAF'', ''V600E''), \<lparr>min_freq = 30 / 100, cancer_types = [''Melanoma'', ''Thyroid'']\<rparr>),
      ((''EGFR'', ''L858R''), \<lparr>min_freq = 10 / 100, cancer_types = [''Lung Adenocarcinoma'']\<rparr>),
      ((''TP53'', ''*''), \<lparr>min_freq = 20 / 100, cancer_types = [''*'']\<rparr>)]"

fun check_hotspots ::
  "MutationFrequency \<Rightarrow> ((string \<times> string) \<times> constraints) list \<Rightarrow> log_event option" where
  \<comment> \<open>the loop over the table: \<open>Some\<close> warning where it returns False\<close>
  "check_hotspots m [] = None"
| "check_hotspots m (((gene, variant), c) # rest) =
     (if gene_symbol m = gene
         \<and> (variant = ''*'' \<or> str_in variant (protein_change m))
         \<and> frequency m < min_freq c * (1 / 10)
      then Some (FrequencyTooLow gene variant)
      else check_hotspots m rest)"

definition validate_frequency :: "MutationFrequency \<Rightarrow> bool \<times> log_event list" where
  "validate_frequency m =
     (if frequency m > 95 / 100 then (False, [SuspiciouslyHigh (gene_symbol m) (frequency m)])
      else
        (case check_hotspots m known_hotspots of
           Some w \<Rightarrow> (False, [w])
         | None \<Rightarrow>
             (let ci_width = ci_95_high m - ci_95_low m
              in if ci_width > 5 / 10 then (False, [IntervalTooWide (gene_symbol m) ci_width])
                 else (True, []))))"

subsection \<open>Emission\<close>

definition candidate :: "real \<Rightarrow> agg_key \<times> agg_data \<Rightarrow> AssertionError + MutationFrequency" where
  \<comment> \<open>the constructor call of lines 133-145, for a group whose denominator is not 0\<close>
  "candidate z g =
     (case g of ((gene, cancer, protein), data) \<Rightarrow>
        (let total_samples = sum_list (map snd (study_denominators data));
             mutation_count = int (length (samples data));
             (freq, ci_low, ci_high) = calculate_wilson_ci z mutation_count total_samples
         in post_init
              \<lparr>gene_symbol = gene, cancer_type = cancer, protein_change = protein,
               samples_with_mutation = mutation_count, total_samples_tested = total_samples,
               frequency = freq, ci_95_low = ci_low, ci_95_high = ci_high,
               source = ''cbioportal'', study_ids = studies data,
               quality_tier = POPULATION_FREQUENCY\<rparr>))"

definition emit_group ::
  "real \<Rightarrow> agg_key \<times> agg_data \<Rightarrow> MutationFrequency list \<times> log_event list" where
  "emit_group z g =
     (if sum_list (map snd (study_denominators (snd g))) = 0 then ([], [])
      else
        (case candidate z g of
           Inl e \<Rightarrow> ([], [DataIntegrityError e])
         | Inr mutation_freq \<Rightarrow>
             (case validate_frequency mutation_freq of
                (True, l) \<Rightarrow> ([mutation_freq], l)
              | (False, l) \<Rightarrow>
                  ([], l @ [RejectedImplausible (gene_symbol mutation_freq)
                              (protein_change mutation_freq) (cancer_type mutation_freq)
                              (frequency mutation_freq)]))))"

fun emit_groups ::
  "real \<Rightarrow> (agg_key \<times> agg_data) list \<Rightarrow> MutationFrequency list \<times> log_event list" where
  "emit_groups z [] = ([], [])"
| "emit_groups z (g # gs) =
     (let (r, l) = emit_group z g; (rs, ls) = emit_groups z gs in (r @ rs, l @ ls))"

definition process_cbioportal_with_frequencies ::
  "real \<Rightarrow> mutation list \<Rightarrow> study list \<Rightarrow> MutationFrequency list \<times> log_event list" where
  "process_cbioportal_with_frequencies z mutations studies_in =
     (let (sd, l1) = build_study_denominators studies_in Map.empty;
          (aggregated, l2) = aggregate_mutations sd mutations [];
          (results, l3) = emit_groups z aggregated
      in (results, l1 @ l2 @ l3))"

subsection \<open>The catalog path\<close>

text \<open>
  \<^verbatim>\<open>ProductionAggregator.process_cosmic_as_catalog\<close>: COSMIC rows are counted per gene and
  no frequency is computed. \<^verbatim>\<open>top_variants\<close> is \<^verbatim>\<open>list(a_set)[:5]\<close>, here the first five
  in insertion order.
\<close>

record cosmic_mutation =
  gene_name :: "string option"
  cosmic_protein_change :: "string option"
  sample_id :: "string option"
  primary_site :: "string option"

record catalog_data =
  occurrences :: int
  unique_samples :: "string list"
  protein_variants :: "string list"
  tissues :: "string list"

record catalog_record =
  cat_gene_symbol :: string
  total_occurrences :: int
  unique_sample_count :: int
  variant_count :: int
  tissue_count :: int
  top_variants :: "string list"
  cat_source :: string
  cat_quality_tier :: string
  cat_note :: string

definition empty_catalog :: catalog_data where
  "empty_catalog = \<lparr>occurrences = 0, unique_samples = [], protein_variants = [], tissues = []\<rparr>"

definition add_if_truthy :: "string option \<Rightarrow> string list \<Rightarrow> string list" where
  \<comment> \<open>\<^verbatim>\<open>if v: a_set.add(v)\<close>\<close>
  "add_if_truthy v xs = (case v of None \<Rightarrow> xs | Some x \<Rightarrow> if x = [] then xs else set_add x xs)"

definition add_to_catalog :: "cosmic_mutation \<Rightarrow> catalog_data \<Rightarrow> catalog_data" where
  "add_to_catalog mut cat =
     \<lparr>occurrences = occurrences cat + 1,
      unique_samples = add_if_truthy (sample_id mut) (unique_samples cat),
      protein_variants =
        add_if_truthy (Some (get_or (cosmic_protein_change mut) [])) (protein_variants cat),
      tissues = add_if_truthy (primary_site mut) (tissues cat)\<rparr>"

fun build_catalog ::
  "cosmic_mutation list \<Rightarrow> (string \<times> catalog_data) list \<Rightarrow> (string \<times> catalog_data) list" where
  "build_catalog [] catalog = catalog"
| "build_catalog (mut # muts) catalog =
     (let gene = get_or (gene_name mut) ''Unknown''
      in if gene = [] \<or> gene = ''Unknown'' then build_catalog muts catalog
         else build_catalog muts
                (AList.update_with_aux empty_catalog gene (add_to_catalog mut) catalog))"

definition catalog_entry :: "string \<times> catalog_data \<Rightarrow> catalog_record" where
  "catalog_entry e =
     (case e of (gene, data) \<Rightarrow>
        \<lparr>cat_gene_symbol = gene,
         total_occurrences = occurrences data,
         unique_sample_count = int (length (unique_samples data)),
         variant_count = int (length (protein_variants data)),
         tissue_count = int (length (tissues data)),
         top_variants = take 5 (protein_variants data),
         cat_source = ''cosmic'',
         cat_quality_tier = DataQuality_value OCCURRENCE_COUNT,
         cat_note = ''Catalog data only - no frequency calculation possible without denominators''\<rparr>)"

definition process_cosmic_as_catalog :: "cosmic_mutation list \<Rightarrow> catalog_record list" where
  "process_cosmic_as_catalog mutations = map catalog_entry (build_catalog mutations [])"

section \<open>The variant harmonizer\<close>

text \<open>
  \<^verbatim>\<open>VariantHarmonizer\<close> (silver/transformers/variant_harmonizer.py). A Python string is a
  list of characters with code points below 256. Each regular expression is the function
  that decides its match: where the character classes of neighbouring parts are disjoint,
  the greedy match of a repetition is its longest run and backtracking finds no other
  match. Python integers and their conversions from and to decimal digits are unbounded.
\<close>

subsection \<open>Characters, \<^verbatim>\<open>strip\<close>, \<^verbatim>\<open>lower\<close>, \<^verbatim>\<open>int\<close> and \<^verbatim>\<open>str\<close>\<close>

definition is_upper :: "char \<Rightarrow> bool" where
  \<comment> \<open>\<^verbatim>\<open>[A-Z]\<close>\<close>
  "is_upper c \<longleftrightarrow> c \<in> set ''ABCDEFGHIJKLMNOPQRSTUVWXYZ''"

definition is_lower :: "char \<Rightarrow> bool" where
  \<comment> \<open>\<^verbatim>\<open>[a-z]\<close>\<close>
  "is_lower c \<longleftrightarrow> c \<in> set ''abcdefghijklmnopqrstuvwxyz''"

definition is_digit :: "char \<Rightarrow> bool" where
  \<comment> \<open>\<^verbatim>\<open>\d\<close>: below code point 256 the decimal digits are 0 to 9\<close>
  "is_digit c \<longleftrightarrow> c \<in> set ''0123456789''"


definition is_space :: "char \<Rightarrow> bool" where
  \<comment> \<open>\<^verbatim>\<open>str.isspace\<close> below code point 256: 9 to 13, 28 to 32, 133 and 160\<close>
  "is_space c \<longleftrightarrow>
     c \<in> set [CHR 0x09, CHR 0x0A, CHR 0x0B, CHR 0x0C, CHR 0x0D, CHR 0x1C, CHR 0x1D, CHR 0x1E,
               CHR 0x1F, CHR 0x20, CHR 0x85, CHR 0xA0]"


definition lower_char :: "char \<Rightarrow> char" where
  "lower_char c =
     (case map_of (zip ''ABCDEFGHIJKLMNOPQRSTUVWXYZ'' ''abcdefghijklmnopqrstuvwxyz'') c of
        Some l \<Rightarrow> l
      | None \<Rightarrow> c)"


definition digit_value :: "char \<Rightarrow> nat" where
  "digit_value c = (case map_of (zip ''0123456789'' [0 ..< 10]) c of Some d \<Rightarrow> d | None \<Rightarrow> 0)"

definition int_of_digits :: "string \<Rightarrow> nat" where
  \<comment> \<open>\<^verbatim>\<open>int(s)\<close> for a string of decimal digits\<close>
  "int_of_digits ds = foldl (\<lambda>acc c. 10 * acc + digit_value c) 0 ds"



definition dollar :: "string \<Rightarrow> bool" where
  \<comment> \<open>\<^verbatim>\<open>$\<close>: the end of the string, or just before a newline that ends it\<close>
  "dollar rest \<longleftrightarrow> rest = [] \<or> rest = [CHR 0x0A]"

subsection \<open>The patterns\<close>





definition three_letter :: "string \<Rightarrow> bool" where
  \<comment> \<open>\<^verbatim>\<open>[A-Z][a-z]{2}\<close>\<close>
  "three_letter s \<longleftrightarrow>
     (case s of [a, b, c] \<Rightarrow> is_upper a \<and> is_lower b \<and> is_lower c | _ \<Rightarrow> False)"

definition pattern2 :: "string \<Rightarrow> (string \<times> nat \<times> string) option" where
  \<comment> \<open>\<^verbatim>\<open>^([A-Z][a-z]{2})(\d+)([A-Z][a-z]{2}|\*)$\<close>, the groups as matched\<close>
  "pattern2 s =
     (let ref = take 3 s; rest = drop 3 s;
          ds = takeWhile is_digit rest; alt = dropWhile is_digit rest
      in if three_letter ref \<and> ds \<noteq> []
            \<and> ((three_letter (take 3 alt) \<and> dollar (drop 3 alt))
                \<or> (take 1 alt = ''*'' \<and> dollar (drop 1 alt)))
         then Some (ref, int_of_digits ds, if three_letter (take 3 alt) then take 3 alt else ''*'')
         else None)"







definition pattern8 :: "string \<Rightarrow> (string \<times> nat \<times> string) option" where
  \<comment> \<open>\<^verbatim>\<open>^([A-Z])(\d+)_([A-Z])(\d+)delins([A-Z]+)$\<close>\<close>
  "pattern8 s =
     (case s of
        a # rest \<Rightarrow>
          (case dropWhile is_digit rest of
             u # b # rest2 \<Rightarrow>
               (let ds2 = takeWhile is_digit rest2; rest3 = dropWhile is_digit rest2;
                    alt = takeWhile is_upper (drop 6 rest3)
                in if is_upper a \<and> takeWhile is_digit rest \<noteq> [] \<and> u = CHR ''_'' \<and> is_upper b
                      \<and> ds2 \<noteq> [] \<and> take 6 rest3 = ''delins'' \<and> alt \<noteq> []
                      \<and> dollar (dropWhile is_upper (drop 6 rest3))
                   then Some ([a], int_of_digits (takeWhile is_digit rest), alt)
                   else None)
           | _ \<Rightarrow> None)
      | [] \<Rightarrow> None)"





section \<open>Vocabulary of the properties\<close>

text \<open>
  The denominator dict and the groups that a run builds, the group a mutation row falls
  into (\<open>None\<close> where its study has no denominator), and what holds of every group
  while the rows are read.
\<close>

definition resolved_denominators :: "study list \<Rightarrow> (string \<rightharpoonup> denominator)" where
  "resolved_denominators sts = fst (build_study_denominators sts Map.empty)"

definition aggregated_groups :: "study list \<Rightarrow> mutation list \<Rightarrow> (agg_key \<times> agg_data) list" where
  "aggregated_groups sts muts = fst (aggregate_mutations (resolved_denominators sts) muts [])"

text \<open>
  What the resolver loop stores for a study, and when: the guard of line 87 and the value
  of lines 88-91.
\<close>

definition enters_map :: "string \<Rightarrow> study \<Rightarrow> bool" where
  "enters_map s st \<longleftrightarrow> studyId st = Some s \<and> s \<noteq> [] \<and> 0 < sample_count st"

definition study_entry :: "study \<Rightarrow> denominator" where
  "study_entry st =
     \<lparr>total_samples = sample_count st,
      denom_cancer_type = get_or (cancerType_name st) ''Unknown''\<rparr>"

definition row_key :: "(string \<rightharpoonup> denominator) \<Rightarrow> mutation \<Rightarrow> agg_key option" where
  "row_key sd mut =
     (case mut_studyId mut of
        None \<Rightarrow> None
      | Some study_id \<Rightarrow>
          (case sd study_id of
             None \<Rightarrow> None
           | Some den \<Rightarrow>
               Some (get_or (hugoGeneSymbol mut) ''Unknown'', denom_cancer_type den,
                     get_or (proteinChange mut) ''Unknown'')))"

definition group_ok :: "(string \<rightharpoonup> denominator) \<Rightarrow> agg_data \<Rightarrow> bool" where
  "group_ok sd data \<longleftrightarrow>
     distinct (map fst (study_denominators data))
     \<and> distinct (studies data)
     \<and> set (studies data) = fst ` set (study_denominators data)
     \<and> (\<forall>(s, n) \<in> set (study_denominators data). \<exists>den. sd s = Some den \<and> total_samples den = n)"

definition groups_ok ::
  "(string \<rightharpoonup> denominator) \<Rightarrow> mutation list \<Rightarrow> (agg_key \<times> agg_data) list \<Rightarrow> bool" where
  "groups_ok sd seen aggregated \<longleftrightarrow>
     distinct (map fst aggregated)
     \<and> (\<forall>m \<in> set seen. \<forall>key. row_key sd m = Some key \<longrightarrow> key \<in> fst ` set aggregated)
     \<and> (\<forall>key \<in> fst ` set aggregated. \<exists>m \<in> set seen. row_key sd m = Some key)
     \<and> (\<forall>(key, data) \<in> set aggregated.
          group_ok sd data
          \<and> set (studies data) = {s. \<exists>m \<in> set seen. mut_studyId m = Some s \<and> row_key sd m = Some key}
          \<and> set (samples data) =
              {k. \<exists>m \<in> set seen. \<exists>s. mut_studyId m = Some s \<and> row_key sd m = Some key
                    \<and> k = sample_key s m})"

subsection \<open>Example inputs\<close>

text \<open>One study of 100 sequenced samples and one mutation row of it, and the record they give.\<close>

definition brca_study :: study where
  "brca_study = \<lparr>studyId = Some ''brca_study'', cancer_study_identifier = None,
       sequencedSampleCount = Some 100, allSampleCount = None, numberOfSamples = None,
       cnaSampleCount = None, cancerType_name = Some ''Breast'', name = None\<rparr>"

definition pik3ca_row :: mutation where
  "pik3ca_row = \<lparr>mut_studyId = Some ''brca_study'', hugoGeneSymbol = Some ''PIK3CA'',
       proteinChange = Some ''H1047R'', sampleId = Some ''S1''\<rparr>"

definition pik3ca_record :: MutationFrequency where
  "pik3ca_record = \<lparr>gene_symbol = ''PIK3CA'', cancer_type = ''Breast'', protein_change = ''H1047R'',
        samples_with_mutation = 1, total_samples_tested = 100, frequency = 1 / 100,
        ci_95_low = 18 / 10000, ci_95_high = 545 / 10000, source = ''cbioportal'',
        study_ids = [''brca_study''], quality_tier = POPULATION_FREQUENCY\<rparr>"





text \<open>A row of a study that has no denominator, and a COSMIC row.\<close>

definition orphan_row :: mutation where
  "orphan_row = \<lparr>mut_studyId = Some ''unknown_study'', hugoGeneSymbol = Some ''PIK3CA'',
       proteinChange = Some ''H1047R'', sampleId = Some ''S9''\<rparr>"

definition cosmic_row :: cosmic_mutation where
  "cosmic_row = \<lparr>gene_name = Some ''PIK3CA'', cosmic_protein_change = Some ''p.H1047R'',
       sample_id = Some ''S9'', primary_site = Some ''breast''\<rparr>"

definition cosmic_entry :: catalog_record where
  "cosmic_entry = \<lparr>cat_gene_symbol = ''PIK3CA'', total_occurrences = 1, unique_sample_count = 1,
       variant_count = 1, tissue_count = 1, top_variants = [''p.H1047R''],
       cat_source = ''cosmic'', cat_quality_tier = ''occurrence_count'',
       cat_note = ''Catalog data only - no frequency calculation possible without denominators''\<rparr>"

text \<open>
  A study of one sample with rows of it, the groups and records they give, and a record
  with a frequency of 0.99 that no run built.
\<close>

definition tiny_study :: study where
  "tiny_study = \<lparr>studyId = Some ''tiny'', cancer_study_identifier = None,
       sequencedSampleCount = Some 1, allSampleCount = None, numberOfSamples = None,
       cnaSampleCount = None, cancerType_name = Some ''Lung'', name = None\<rparr>"

definition atm_row :: "string \<Rightarrow> mutation" where
  "atm_row sample = \<lparr>mut_studyId = Some ''tiny'', hugoGeneSymbol = Some ''ATM'',
       proteinChange = Some ''R337C'', sampleId = Some sample\<rparr>"

definition atm_group :: "string list \<Rightarrow> agg_key \<times> agg_data" where
  "atm_group sample_keys = ((''ATM'', ''Lung'', ''R337C''),
       \<lparr>samples = sample_keys, studies = [''tiny''], study_denominators = [(''tiny'', 1)]\<rparr>)"

definition atm_record :: MutationFrequency where
  "atm_record = \<lparr>gene_symbol = ''ATM'', cancer_type = ''Lung'', protein_change = ''R337C'',
        samples_with_mutation = 1, total_samples_tested = 1, frequency = 1,
        ci_95_low = 2065 / 10000, ci_95_high = 1, source = ''cbioportal'',
        study_ids = [''tiny''], quality_tier = POPULATION_FREQUENCY\<rparr>"

definition synthetic_record :: MutationFrequency where
  "synthetic_record = \<lparr>gene_symbol = ''ATM'', cancer_type = ''Lung'', protein_change = ''R337C'',
        samples_with_mutation = 99, total_samples_tested = 100, frequency = 99 / 100,
        ci_95_low = 9455 / 10000, ci_95_high = 9982 / 10000, source = ''cbioportal'',
        study_ids = [''tiny''], quality_tier = POPULATION_FREQUENCY\<rparr>"


subsection \<open>The quantile of scipy and the interval in the words of the specification\<close>

text \<open>
  \<^verbatim>\<open>stats.norm.ppf(0.975)\<close> is computed by scipy, outside the repository; the double it
  returns prints as \<^verbatim>\<open>1.959963984540054\<close> (the 97.5 per cent quantile of the normal
  distribution is 1.95996398454005...). It is the argument \<open>z\<close> of
  \<open>calculate_wilson_ci\<close> in a run of \<^verbatim>\<open>ProductionAggregator\<close>.
\<close>

definition norm_ppf_975 :: real where
  "norm_ppf_975 = 1959963984540054 / 1000000000000000"


text \<open>
  The end-to-end scenario of the specification: three BRAF V600E rows of three samples of
  the melanoma study of 450 samples; and one BRAF V600E row of a colorectal study of 100.
\<close>

definition skcm_study :: study where
  "skcm_study = \<lparr>studyId = Some ''skcm_study'', cancer_study_identifier = None,
       sequencedSampleCount = Some 450, allSampleCount = None, numberOfSamples = None,
       cnaSampleCount = None, cancerType_name = Some ''Melanoma'', name = None\<rparr>"

definition braf_row :: "string \<Rightarrow> mutation" where
  "braf_row sample = \<lparr>mut_studyId = Some ''skcm_study'', hugoGeneSymbol = Some ''BRAF'',
       proteinChange = Some ''V600E'', sampleId = Some sample\<rparr>"

definition braf_rows :: "mutation list" where
  "braf_rows = [braf_row ''S1'', braf_row ''S2'', braf_row ''S3'']"

definition braf_group :: "agg_key \<times> agg_data" where
  "braf_group = ((''BRAF'', ''Melanoma'', ''V600E''),
       \<lparr>samples = [''skcm_study:S1'', ''skcm_study:S2'', ''skcm_study:S3''],
        studies = [''skcm_study''], study_denominators = [(''skcm_study'', 450)]\<rparr>)"

definition braf_candidate :: MutationFrequency where
  "braf_candidate = \<lparr>gene_symbol = ''BRAF'', cancer_type = ''Melanoma'', protein_change = ''V600E'',
        samples_with_mutation = 3, total_samples_tested = 450, frequency = 67 / 10000,
        ci_95_low = 23 / 10000, ci_95_high = 194 / 10000, source = ''cbioportal'',
        study_ids = [''skcm_study''], quality_tier = POPULATION_FREQUENCY\<rparr>"

definition coad_study :: study where
  "coad_study = \<lparr>studyId = Some ''coad_study'', cancer_study_identifier = None,
       sequencedSampleCount = Some 100, allSampleCount = None, numberOfSamples = None,
       cnaSampleCount = None, cancerType_name = Some ''Colorectal'', name = None\<rparr>"

definition braf_coad_row :: mutation where
  "braf_coad_row = \<lparr>mut_studyId = Some ''coad_study'', hugoGeneSymbol = Some ''BRAF'',
       proteinChange = Some ''V600E'', sampleId = Some ''S1''\<rparr>"

definition braf_coad_record :: MutationFrequency where
  "braf_coad_record = \<lparr>gene_symbol = ''BRAF'', cancer_type = ''Colorectal'',
        protein_change = ''V600E'', samples_with_mutation = 1, total_samples_tested = 100,
        frequency = 1 / 100, ci_95_low = 18 / 10000, ci_95_high = 545 / 10000,
        source = ''cbioportal'', study_ids = [''coad_study''],
        quality_tier = POPULATION_FREQUENCY\<rparr>"

text \<open>A study without any sample count, and one whose two counts differ.\<close>

definition uncounted_study :: study where
  "uncounted_study = \<lparr>studyId = Some ''no_counts'', cancer_study_identifier = None,
       sequencedSampleCount = None, allSampleCount = None, numberOfSamples = None,
       cnaSampleCount = None, cancerType_name = Some ''Breast'', name = None\<rparr>"

definition two_counts_study :: study where
  "two_counts_study = \<lparr>studyId = Some ''two_counts'', cancer_study_identifier = None,
       sequencedSampleCount = Some 5, allSampleCount = Some 10, numberOfSamples = None,
       cnaSampleCount = None, cancerType_name = Some ''Breast'', name = None\<rparr>"



section \<open>Properties\<close>

subsection \<open>Rounding and the Wilson interval at given bounds of the root\<close>

lemma round_half_even_eqI:
  assumes "of_int n - 1 / 2 < x" and "x < of_int n + 1 / 2"
  shows "round_half_even x = n"
proof (cases "of_int n \<le> x")
  case True
  then have f: "\<lfloor>x\<rfloor> = n" using assms by (simp add: floor_eq_iff)
  show ?thesis using assms by (simp add: round_half_even_def f Let_def)
next
  case False
  then have f: "\<lfloor>x\<rfloor> = n - 1" using assms by (simp add: floor_eq_iff)
  show ?thesis using assms False by (simp add: round_half_even_def f Let_def)
qed

lemma round_half_even_of_int [simp]: "round_half_even (of_int n) = n"
  by (rule round_half_even_eqI) simp_all

lemma round4_eqI:
  assumes "(of_int n - 1 / 2) / 10000 < x" and "x < (of_int n + 1 / 2) / 10000"
  shows "round4 x = of_int n / 10000"
proof -
  have "round_half_even (x * 10000) = n"
    using assms by (intro round_half_even_eqI) (simp_all add: field_simps)
  then show ?thesis by (simp add: round4_def)
qed

lemma round4_exact: "round4 (of_int n / 10000) = of_int n / 10000"
  by (simp add: round4_def)

lemma calculate_wilson_ci_eval:
  fixes z :: real
  assumes t: "trials \<noteq> 0"
    and p: "p = real_of_int successes / real_of_int trials"
    and d: "d = 1 + z\<^sup>2 / real_of_int trials"
    and c: "c = (p + z\<^sup>2 / (2 * real_of_int trials)) / d"
    and r: "r = p * (1 - p) / real_of_int trials + z\<^sup>2 / (4 * (real_of_int trials)\<^sup>2)"
    and s: "sl \<le> sqrt r" "sqrt r \<le> su"
    and z: "0 \<le> z" and dpos: "0 < d"
    and f: "round4 p = f"
    and lo: "(of_int nl - 1 / 2) / 10000 < max 0 (c - z * su / d)"
            "max 0 (c - z * sl / d) < (of_int nl + 1 / 2) / 10000"
    and hi: "(of_int nh - 1 / 2) / 10000 < min 1 (c + z * sl / d)"
            "min 1 (c + z * su / d) < (of_int nh + 1 / 2) / 10000"
  shows "calculate_wilson_ci z successes trials = (f, of_int nl / 10000, of_int nh / 10000)"
proof -
  have m1: "z * sl / d \<le> z * sqrt r / d" using s z dpos
    by (intro divide_right_mono mult_left_mono) simp_all
  have m2: "z * sqrt r / d \<le> z * su / d" using s z dpos
    by (intro divide_right_mono mult_left_mono) simp_all
  have a: "round4 (max 0 (c - z * sqrt r / d)) = of_int nl / 10000"
    using lo m1 m2 by (intro round4_eqI) linarith+
  have b: "round4 (min 1 (c + z * sqrt r / d)) = of_int nh / 10000"
    using hi m1 m2 by (intro round4_eqI) linarith+
  show ?thesis
    using t a b f unfolding calculate_wilson_ci_def Let_def p d c r by simp
qed

subsection \<open>Records, groups and the loops\<close>

lemma post_init_Inr:
  "post_init m = Inr r \<Longrightarrow>
     r = m \<and> samples_with_mutation m \<le> total_samples_tested m
     \<and> 0 \<le> frequency m \<and> frequency m \<le> 1
     \<and> ci_95_low m \<le> frequency m \<and> frequency m \<le> ci_95_high m"
  by (auto simp: post_init_def split: if_splits)

lemma candidate_Inr:
  assumes "candidate z ((gene, cancer, protein), data) = Inr r"
  shows "gene_symbol r = gene" "cancer_type r = cancer" "protein_change r = protein"
    "samples_with_mutation r = int (length (samples data))"
    "total_samples_tested r = sum_list (map snd (study_denominators data))"
    "study_ids r = studies data" "quality_tier r = POPULATION_FREQUENCY"
    "source r = ''cbioportal''"
    "samples_with_mutation r \<le> total_samples_tested r"
    "0 \<le> frequency r" "frequency r \<le> 1"
    "ci_95_low r \<le> frequency r" "frequency r \<le> ci_95_high r"
  using assms
  by (auto simp: candidate_def Let_def split_def dest!: post_init_Inr)

lemma emit_group_member:
  assumes "r \<in> set (fst (emit_group z g))"
  shows "candidate z g = Inr r" "fst (validate_frequency r)"
  using assms
  by (auto simp: emit_group_def split: if_splits sum.splits prod.splits bool.splits)

lemma fst_emit_groups: "fst (emit_groups z gs) = concat (map (\<lambda>g. fst (emit_group z g)) gs)"
  by (induction gs) (auto simp: split_def Let_def)


lemma fst_process:
  "fst (process_cbioportal_with_frequencies z muts sts)
     = fst (emit_groups z (aggregated_groups sts muts))"
  by (simp add: process_cbioportal_with_frequencies_def aggregated_groups_def
      resolved_denominators_def split_def Let_def)

lemma process_member:
  assumes "r \<in> set (fst (process_cbioportal_with_frequencies z muts sts))"
  obtains g where "g \<in> set (aggregated_groups sts muts)" "candidate z g = Inr r"
    "fst (validate_frequency r)"
proof -
  from assms obtain g where g: "g \<in> set (aggregated_groups sts muts)"
    "r \<in> set (fst (emit_group z g))"
    by (auto simp: fst_process fst_emit_groups)
  then show ?thesis using that emit_group_member by blast
qed

lemma fst_aggregate_mutations_append:
  "fst (aggregate_mutations sd (xs @ ys) agg)
     = fst (aggregate_mutations sd ys (fst (aggregate_mutations sd xs agg)))"
  by (induction xs arbitrary: agg) (auto simp: split_def Let_def)

lemma aggregate_step_skip:
  "row_key sd m = None \<Longrightarrow> fst (aggregate_step sd m agg) = agg"
  by (auto simp: row_key_def aggregate_step_def split: option.splits)

lemma aggregate_step_add:
  assumes "mut_studyId m = Some s" "sd s = Some den"
  shows "fst (aggregate_step sd m agg)
     = AList.update_with_aux empty_agg (the (row_key sd m))
         (add_to_group s m (total_samples den)) agg"
  using assms by (simp add: row_key_def aggregate_step_def Let_def)

lemma set_set_add [simp]: "set (set_add x xs) = insert x (set xs)"
  by (auto simp: set_add_def)

lemma distinct_set_add [simp]: "distinct (set_add x xs) = distinct xs"
  by (auto simp: set_add_def)

lemma group_ok_empty: "group_ok sd empty_agg"
  by (simp add: group_ok_def empty_agg_def)

lemma group_ok_add:
  assumes "group_ok sd data" "sd s = Some den"
  shows "group_ok sd (add_to_group s m (total_samples den) data)"
proof -
  let ?al = "study_denominators data"
  let ?al' = "AList.update s (total_samples den) ?al"
  have sub: "set (AList.update k v al) \<subseteq> insert (k, v) (set al)"
    for k :: string and v :: int and al
    by (induction al) auto
  have d: "distinct (map fst ?al')"
    using assms(1) by (simp add: group_ok_def AList.distinct_update)
  have k: "fst ` set ?al' = insert s (fst ` set ?al)"
    by (simp add: AList.dom_update)
  have v: "\<forall>(s', n) \<in> set ?al'. \<exists>den. sd s' = Some den \<and> total_samples den = n"
    using assms sub[of s "total_samples den" ?al] by (auto simp: group_ok_def)
  show ?thesis
    using assms(1) d k v by (simp add: group_ok_def add_to_group_def)
qed


lemma studies_add_to_group [simp]:
  "set (studies (add_to_group s m n d)) = insert s (set (studies d))"
  "set (samples (add_to_group s m n d)) = insert (sample_key s m) (set (samples d))"
  by (simp_all add: add_to_group_def)

lemma groups_okD:
  assumes "groups_ok sd seen agg" "(key, data) \<in> set agg"
  shows "group_ok sd data"
    "set (studies data) = {s. \<exists>m \<in> set seen. mut_studyId m = Some s \<and> row_key sd m = Some key}"
    "set (samples data) = {k. \<exists>m \<in> set seen. \<exists>s. mut_studyId m = Some s
                                \<and> row_key sd m = Some key \<and> k = sample_key s m}"
    "\<exists>m \<in> set seen. row_key sd m = Some key"
proof -
  have e: "\<forall>(key, data) \<in> set agg.
          group_ok sd data
          \<and> set (studies data) = {s. \<exists>m \<in> set seen. mut_studyId m = Some s \<and> row_key sd m = Some key}
          \<and> set (samples data) =
              {k. \<exists>m \<in> set seen. \<exists>s. mut_studyId m = Some s \<and> row_key sd m = Some key
                    \<and> k = sample_key s m}"
    using assms(1) by (simp add: groups_ok_def)
  have k: "\<forall>key \<in> fst ` set agg. \<exists>m \<in> set seen. row_key sd m = Some key"
    using assms(1) by (simp add: groups_ok_def)
  from bspec[OF e assms(2)]
  show "group_ok sd data"
    "set (studies data) = {s. \<exists>m \<in> set seen. mut_studyId m = Some s \<and> row_key sd m = Some key}"
    "set (samples data) = {k. \<exists>m \<in> set seen. \<exists>s. mut_studyId m = Some s
                                \<and> row_key sd m = Some key \<and> k = sample_key s m}"
    by simp_all
  have "key \<in> fst ` set agg" using assms(2) by force
  then show "\<exists>m \<in> set seen. row_key sd m = Some key" using k by blast
qed

lemma groups_ok_step:
  assumes ok: "groups_ok sd seen agg"
  shows "groups_ok sd (seen @ [m]) (fst (aggregate_step sd m agg))"
proof (cases "row_key sd m")
  case None
  then have same: "fst (aggregate_step sd m agg) = agg" by (rule aggregate_step_skip)
  have "(\<exists>m' \<in> set (seen @ [m]). row_key sd m' = Some k \<and> P m')
          \<longleftrightarrow> (\<exists>m' \<in> set seen. row_key sd m' = Some k \<and> P m')" for k P
    using None by auto
  note ex = this
  have ex0: "(\<exists>m' \<in> set (seen @ [m]). row_key sd m' = Some k)
          \<longleftrightarrow> (\<exists>m' \<in> set seen. row_key sd m' = Some k)" for k
    using None by auto
  have "(\<forall>m' \<in> set (seen @ [m]). \<forall>k. row_key sd m' = Some k \<longrightarrow> k \<in> A)
          \<longleftrightarrow> (\<forall>m' \<in> set seen. \<forall>k. row_key sd m' = Some k \<longrightarrow> k \<in> A)" for A
    using None by auto
  note all = this
  have conj_swap: "(\<exists>m' \<in> S. mut_studyId m' = Some s \<and> row_key sd m' = Some k)
          \<longleftrightarrow> (\<exists>m' \<in> S. row_key sd m' = Some k \<and> mut_studyId m' = Some s)" for S s k
    by auto
  have conj_swap2: "(\<exists>m' \<in> S. \<exists>s. mut_studyId m' = Some s \<and> row_key sd m' = Some k \<and> x = sample_key s m')
          \<longleftrightarrow> (\<exists>m' \<in> S. row_key sd m' = Some k \<and> (\<exists>s. mut_studyId m' = Some s \<and> x = sample_key s m'))"
    for S k x
    by auto
  show ?thesis
    using ok unfolding same groups_ok_def conj_swap conj_swap2 ex ex0 all .
next
  case (Some key)
  then obtain s den where s: "mut_studyId m = Some s" and den: "sd s = Some den"
    by (auto simp: row_key_def split: option.splits)
  define f where "f = add_to_group s m (total_samples den)"
  define d0 where "d0 = (case map_of agg key of None \<Rightarrow> empty_agg | Some v \<Rightarrow> v)"
  have new: "fst (aggregate_step sd m agg) = AList.update_with_aux empty_agg key f agg"
    using aggregate_step_add[of m s sd den agg] s den Some by (simp add: f_def)
  have dist: "distinct (map fst agg)" using ok by (simp add: groups_ok_def)
  have entries: "set (AList.update_with_aux empty_agg key f agg)
                   = set agg - {key} \<times> UNIV \<union> {(key, f d0)}"
    using AList.set_update_with_aux[OF dist, of empty_agg key f] by (simp add: d0_def)
  have keys: "fst ` set (AList.update_with_aux empty_agg key f agg) = insert key (fst ` set agg)"
    by (simp add: AList.dom_update_with_aux)
  have d0: "group_ok sd d0
      \<and> set (studies d0) = {s. \<exists>m \<in> set seen. mut_studyId m = Some s \<and> row_key sd m = Some key}
      \<and> set (samples d0) = {k. \<exists>m \<in> set seen. \<exists>s. mut_studyId m = Some s
                                \<and> row_key sd m = Some key \<and> k = sample_key s m}"
  proof (cases "map_of agg key")
    case None
    then have "key \<notin> fst ` set agg" by (simp add: map_of_eq_None_iff)
    moreover have "\<forall>m' \<in> set seen. \<forall>k. row_key sd m' = Some k \<longrightarrow> k \<in> fst ` set agg"
      using ok by (simp add: groups_ok_def)
    ultimately have "\<forall>m \<in> set seen. row_key sd m \<noteq> Some key"
      by blast
    then show ?thesis using None group_ok_empty[of sd] by (auto simp: d0_def empty_agg_def)
  next
    case (Some v)
    then have "(key, v) \<in> set agg" by (rule map_of_SomeD)
    then show ?thesis using groups_okD(1,2,3)[OF ok, of key v] Some by (simp add: d0_def)
  qed
  have g: "group_ok sd (f d0)" unfolding f_def using d0 den by (blast intro: group_ok_add)
  have 1: "distinct (map fst (AList.update_with_aux empty_agg key f agg))"
    using dist by simp
  have 2: "\<forall>m' \<in> set (seen @ [m]). \<forall>k. row_key sd m' = Some k
             \<longrightarrow> k \<in> fst ` set (AList.update_with_aux empty_agg key f agg)"
  proof -
    have "\<forall>m' \<in> set seen. \<forall>k. row_key sd m' = Some k \<longrightarrow> k \<in> fst ` set agg"
      using ok by (simp add: groups_ok_def)
    then show ?thesis unfolding keys using Some by auto
  qed
  have 3: "\<forall>(k, data) \<in> set (AList.update_with_aux empty_agg key f agg).
          group_ok sd data
          \<and> set (studies data) = {s. \<exists>m \<in> set (seen @ [m]). mut_studyId m = Some s \<and> row_key sd m = Some k}
          \<and> set (samples data) =
              {x. \<exists>m \<in> set (seen @ [m]). \<exists>s. mut_studyId m = Some s \<and> row_key sd m = Some k
                    \<and> x = sample_key s m}"
  proof (clarify)
    fix k data assume "(k, data) \<in> set (AList.update_with_aux empty_agg key f agg)"
    then consider "(k, data) \<in> set agg" "k \<noteq> key" | "k = key" "data = f d0"
      unfolding entries by auto
    then show "group_ok sd data
          \<and> set (studies data) = {s. \<exists>m \<in> set (seen @ [m]). mut_studyId m = Some s \<and> row_key sd m = Some k}
          \<and> set (samples data) =
              {x. \<exists>m \<in> set (seen @ [m]). \<exists>s. mut_studyId m = Some s \<and> row_key sd m = Some k
                    \<and> x = sample_key s m}"
    proof cases
      case 1
      have "row_key sd m \<noteq> Some k" using Some 1(2) by simp
      then show ?thesis using groups_okD(1,2,3)[OF ok 1(1)] by auto
    next
      case 2
      then show ?thesis using g d0 s Some by (auto simp: f_def)
    qed
  qed
  have old: "\<forall>k \<in> fst ` set agg. \<exists>m' \<in> set seen. row_key sd m' = Some k"
    using ok by (simp add: groups_ok_def)
  have 4: "\<forall>k \<in> fst ` set (AList.update_with_aux empty_agg key f agg).
             \<exists>m' \<in> set (seen @ [m]). row_key sd m' = Some k"
    unfolding keys using old Some by auto
  show ?thesis unfolding new groups_ok_def using 1 2 3 4 by (intro conjI)
qed

lemma groups_ok_aggregate:
  "groups_ok sd seen agg \<Longrightarrow> groups_ok sd (seen @ muts) (fst (aggregate_mutations sd muts agg))"
proof (induction muts arbitrary: seen agg)
  case Nil
  then show ?case by simp
next
  case (Cons m muts)
  from groups_ok_step[OF Cons.prems, of m]
  have "groups_ok sd ((seen @ [m]) @ muts)
          (fst (aggregate_mutations sd muts (fst (aggregate_step sd m agg))))"
    by (rule Cons.IH)
  then show ?case by (simp add: split_def Let_def)
qed

lemma groups_ok_aggregated: "groups_ok (resolved_denominators sts) muts (aggregated_groups sts muts)"
  using groups_ok_aggregate[of "resolved_denominators sts" "[]" "[]" muts]
  by (simp add: groups_ok_def aggregated_groups_def)



subsection \<open>The pipeline on the example inputs\<close>

lemma wilson_1_100:
  assumes "z = 196 / 100"
  shows "calculate_wilson_ci z 1 100 = (1 / 100, 18 / 10000, 545 / 10000)"
proof -
  have "calculate_wilson_ci (196 / 100) 1 100 = (1 / 100, of_int 18 / 10000, of_int 545 / 10000)"
  proof (rule calculate_wilson_ci_eval[where p = "1 / 100" and d = "1038416 / 1000000"
        and c = "(1 / 100 + 38416 / 10000 / 200) / (1038416 / 1000000)"
        and r = "19504 / 100000000"
        and sl = "139656 / 10000000" and su = "139657 / 10000000"])
    show "139656 / 10000000 \<le> sqrt (19504 / 100000000)"
      by (rule real_le_rsqrt) (simp add: power2_eq_square)
    show "sqrt (19504 / 100000000) \<le> 139657 / 10000000"
      by (rule real_le_lsqrt) (simp_all add: power2_eq_square)
    show "round4 (1 / 100) = 1 / 100" using round4_exact[of 100] by simp
  qed (simp_all add: power2_eq_square)
  then show ?thesis unfolding assms by simp
qed

lemmas eval_defs = denominator_step_def sample_count_def
      get_or_def or_int_def aggregate_step_def add_to_group_def set_add_def sample_key_def
      empty_agg_def emit_group_def candidate_def post_init_def
      validate_frequency_def known_hotspots_def Let_def split_def

lemma process_one_row:
  assumes "z = 196 / 100"
  shows "process_cbioportal_with_frequencies z [pik3ca_row] [brca_study]
   = ([pik3ca_record], [StudyInfo ''brca_study'' 100])"
  using assms by (simp add: process_cbioportal_with_frequencies_def brca_study_def pik3ca_row_def
      pik3ca_record_def eval_defs wilson_1_100)

subsection \<open>C2: bounds of every emitted record\<close>

text \<open>
  Claim C2. Every record that \<^verbatim>\<open>process_cbioportal_with_frequencies\<close> returns has its
  frequency in \<open>[0, 1]\<close>, no more samples with the mutation than samples tested, and its
  frequency inside its confidence interval: the constructor asserts the three, and a
  record whose construction raises is dropped.
\<close>

theorem emitted_record_bounds:
  assumes "r \<in> set (fst (process_cbioportal_with_frequencies z muts sts))"
  shows "0 \<le> frequency r \<and> frequency r \<le> 1
       \<and> samples_with_mutation r \<le> total_samples_tested r
       \<and> ci_95_low r \<le> frequency r \<and> frequency r \<le> ci_95_high r"
proof -
  from assms obtain g where "candidate z g = Inr r" by (rule process_member)
  then show ?thesis by (cases g) (auto dest: candidate_Inr)
qed

theorem emitted_record_bounds_witness:
  "pik3ca_record \<in> set (fst (process_cbioportal_with_frequencies (196 / 100) [pik3ca_row] [brca_study]))
   \<and> 0 \<le> frequency pik3ca_record \<and> frequency pik3ca_record \<le> 1
   \<and> samples_with_mutation pik3ca_record \<le> total_samples_tested pik3ca_record
   \<and> ci_95_low pik3ca_record \<le> frequency pik3ca_record
   \<and> frequency pik3ca_record \<le> ci_95_high pik3ca_record"
proof -
  have m: "pik3ca_record \<in> set (fst (process_cbioportal_with_frequencies (196 / 100) [pik3ca_row] [brca_study]))"
    unfolding process_one_row[OF refl] by simp
  from emitted_record_bounds[OF m] m show ?thesis by simp
qed

subsection \<open>The pipeline on fifty rows of one study\<close>





subsection \<open>C1: a study's denominator is counted once\<close>

lemma row_key_study:
  "row_key sd m = Some key \<Longrightarrow> \<exists>s. mut_studyId m = Some s \<and> sd s \<noteq> None"
  by (auto simp: row_key_def split: option.splits)



subsection \<open>C4: rows of a study without a denominator\<close>

lemma snd_aggregate_mutations_append:
  "snd (aggregate_mutations sd (xs @ ys) agg)
     = snd (aggregate_mutations sd xs agg)
       @ snd (aggregate_mutations sd ys (fst (aggregate_mutations sd xs agg)))"
  by (induction xs arbitrary: agg) (auto simp: split_def Let_def)

lemma snd_process:
  "snd (process_cbioportal_with_frequencies z muts sts)
     = snd (build_study_denominators sts Map.empty)
       @ snd (aggregate_mutations (resolved_denominators sts) muts [])
       @ snd (emit_groups z (aggregated_groups sts muts))"
  by (simp add: process_cbioportal_with_frequencies_def aggregated_groups_def
      resolved_denominators_def split_def Let_def)

lemma row_key_None_iff:
  "row_key sd m = None \<longleftrightarrow> (\<forall>s. mut_studyId m = Some s \<longrightarrow> sd s = None)"
  by (auto simp: row_key_def split: option.splits)

lemma aggregate_step_skip_log:
  "row_key sd m = None \<Longrightarrow> snd (aggregate_step sd m agg) = [SkippingMutation (mut_studyId m)]"
  by (auto simp: row_key_def aggregate_step_def split: option.splits)

lemma aggregated_groups_skip:
  assumes "row_key (resolved_denominators sts) m = None"
  shows "aggregated_groups sts (ms1 @ m # ms2) = aggregated_groups sts (ms1 @ ms2)"
  using assms
  by (simp add: aggregated_groups_def fst_aggregate_mutations_append split_def Let_def
      aggregate_step_skip)

lemma emitted_studies_resolved:
  assumes "r \<in> set (fst (process_cbioportal_with_frequencies z muts sts))"
    and "s \<in> set (study_ids r)"
  shows "resolved_denominators sts s \<noteq> None"
proof -
  from assms(1) obtain g where g: "g \<in> set (aggregated_groups sts muts)" "candidate z g = Inr r"
    by (rule process_member)
  obtain gene cancer protein data where gd: "g = ((gene, cancer, protein), data)"
    by (cases g) auto
  note c = candidate_Inr[OF g(2)[unfolded gd]]
  note ok = groups_okD[OF groups_ok_aggregated g(1)[unfolded gd]]
  from assms(2) have "s \<in> set (studies data)" using c(6) by simp
  then obtain m where "mut_studyId m = Some s"
    "row_key (resolved_denominators sts) m = Some (gene, cancer, protein)"
    unfolding ok(2) by blast
  then show ?thesis by (auto dest: row_key_study)
qed

lemma catalog_tier:
  "c \<in> set (process_cosmic_as_catalog cms) \<Longrightarrow> cat_quality_tier c = ''occurrence_count''"
  by (auto simp: process_cosmic_as_catalog_def catalog_entry_def)

text \<open>
  Claim C4. A mutation row whose study identifier is not a key of the resolved denominator
  dict is skipped (with a warning): the returned records are those of the input without
  the row, every returned record is tagged \<^verbatim>\<open>population_frequency\<close> and lists only
  studies that have a denominator, and never the study of the skipped row. The records of
  the catalog path \<^verbatim>\<open>process_cosmic_as_catalog\<close> are all tagged \<^verbatim>\<open>occurrence_count\<close>.
\<close>

theorem mutation_without_denominator_excluded:
  assumes "\<forall>s. mut_studyId m = Some s \<longrightarrow> resolved_denominators sts s = None"
  shows "fst (process_cbioportal_with_frequencies z (ms1 @ m # ms2) sts)
           = fst (process_cbioportal_with_frequencies z (ms1 @ ms2) sts)
     \<and> SkippingMutation (mut_studyId m)
           \<in> set (snd (process_cbioportal_with_frequencies z (ms1 @ m # ms2) sts))
     \<and> (\<forall>r \<in> set (fst (process_cbioportal_with_frequencies z (ms1 @ m # ms2) sts)).
           quality_tier r = POPULATION_FREQUENCY
           \<and> (\<forall>s \<in> set (study_ids r).
                 mut_studyId m \<noteq> Some s \<and> resolved_denominators sts s \<noteq> None))
     \<and> (\<forall>c \<in> set (process_cosmic_as_catalog cms).
           cat_quality_tier c = DataQuality_value OCCURRENCE_COUNT)"
proof -
  let ?sd = "resolved_denominators sts"
  have none: "row_key ?sd m = None" using assms by (simp add: row_key_None_iff)
  have 1: "fst (process_cbioportal_with_frequencies z (ms1 @ m # ms2) sts)
             = fst (process_cbioportal_with_frequencies z (ms1 @ ms2) sts)"
    by (simp add: fst_process aggregated_groups_skip[OF none])
  have "snd (aggregate_mutations ?sd (m # ms2) agg)
          = SkippingMutation (mut_studyId m)
            # snd (aggregate_mutations ?sd ms2 (fst (aggregate_step ?sd m agg)))" for agg
    using aggregate_step_skip_log[OF none, of agg] by (simp add: split_def Let_def)
  then have 2: "SkippingMutation (mut_studyId m)
           \<in> set (snd (process_cbioportal_with_frequencies z (ms1 @ m # ms2) sts))"
    by (simp add: snd_process snd_aggregate_mutations_append)
  have 3: "quality_tier r = POPULATION_FREQUENCY
           \<and> (\<forall>s \<in> set (study_ids r). mut_studyId m \<noteq> Some s \<and> ?sd s \<noteq> None)"
    if r: "r \<in> set (fst (process_cbioportal_with_frequencies z (ms1 @ m # ms2) sts))" for r
  proof -
    from r obtain g where "candidate z g = Inr r" by (rule process_member)
    then have "quality_tier r = POPULATION_FREQUENCY" by (cases g) (auto dest: candidate_Inr(7))
    moreover have "mut_studyId m \<noteq> Some s \<and> ?sd s \<noteq> None" if "s \<in> set (study_ids r)" for s
      using emitted_studies_resolved[OF r that] assms by auto
    ultimately show ?thesis by blast
  qed
  have 4: "\<forall>c \<in> set (process_cosmic_as_catalog cms).
           cat_quality_tier c = DataQuality_value OCCURRENCE_COUNT"
    by (simp add: catalog_tier)
  show ?thesis using 1 2 3 4 by blast
qed

lemma resolved_brca:
  "resolved_denominators [brca_study]
     = [''brca_study'' \<mapsto> \<lparr>total_samples = 100, denom_cancer_type = ''Breast''\<rparr>]"
  by (simp add: resolved_denominators_def brca_study_def eval_defs)

lemma catalog_cosmic_row: "process_cosmic_as_catalog [cosmic_row] = [cosmic_entry]"
  by (simp add: process_cosmic_as_catalog_def catalog_entry_def cosmic_row_def cosmic_entry_def
      add_to_catalog_def add_if_truthy_def empty_catalog_def set_add_def get_or_def)

theorem mutation_without_denominator_excluded_witness:
  "mut_studyId orphan_row = Some ''unknown_study''
   \<and> resolved_denominators [brca_study] ''unknown_study'' = None
   \<and> fst (process_cbioportal_with_frequencies (196 / 100) [orphan_row, pik3ca_row] [brca_study])
       = [pik3ca_record]
   \<and> SkippingMutation (Some ''unknown_study'')
       \<in> set (snd (process_cbioportal_with_frequencies (196 / 100) [orphan_row, pik3ca_row]
                     [brca_study]))
   \<and> quality_tier pik3ca_record = POPULATION_FREQUENCY
   \<and> ''unknown_study'' \<notin> set (study_ids pik3ca_record)
   \<and> cosmic_entry \<in> set (process_cosmic_as_catalog [cosmic_row])
   \<and> cat_quality_tier cosmic_entry = ''occurrence_count''"
proof -
  have h: "\<forall>s. mut_studyId orphan_row = Some s \<longrightarrow> resolved_denominators [brca_study] s = None"
    by (simp add: orphan_row_def resolved_brca)
  note t = mutation_without_denominator_excluded[OF h, of "196 / 100" "[]" "[pik3ca_row]"
      "[cosmic_row]"]
  have p: "fst (process_cbioportal_with_frequencies (196 / 100) ([] @ [pik3ca_row]) [brca_study])
             = [pik3ca_record]"
    unfolding append_Nil process_one_row[OF refl] by simp
  have 1: "fst (process_cbioportal_with_frequencies (196 / 100) [orphan_row, pik3ca_row]
                  [brca_study]) = [pik3ca_record]"
    using t p by simp
  have 2: "SkippingMutation (Some ''unknown_study'')
       \<in> set (snd (process_cbioportal_with_frequencies (196 / 100) [orphan_row, pik3ca_row]
                     [brca_study]))"
    using t by (simp add: orphan_row_def)
  have 3: "quality_tier pik3ca_record = POPULATION_FREQUENCY
           \<and> ''unknown_study'' \<notin> set (study_ids pik3ca_record)"
    by (simp add: pik3ca_record_def)
  have 4: "cosmic_entry \<in> set (process_cosmic_as_catalog [cosmic_row])
           \<and> cat_quality_tier cosmic_entry = ''occurrence_count''"
    by (simp add: catalog_cosmic_row cosmic_entry_def)
  have 0: "mut_studyId orphan_row = Some ''unknown_study''
           \<and> resolved_denominators [brca_study] ''unknown_study'' = None"
    by (simp add: orphan_row_def resolved_brca)
  show ?thesis using 0 1 2 3 4 by blast
qed

subsection \<open>The resolved denominators, and the groups of a run\<close>

lemma wilson_1_1:
  assumes "z = 196 / 100"
  shows "calculate_wilson_ci z 1 1 = (1, 2065 / 10000, 1)"
proof -
  have "calculate_wilson_ci (196 / 100) 1 1 = (1, of_int 2065 / 10000, of_int 10000 / 10000)"
  proof (rule calculate_wilson_ci_eval[where p = "1" and d = "48416 / 10000"
        and c = "(1 + 38416 / 10000 / 2) / (48416 / 10000)"
        and r = "9604 / 10000"
        and sl = "98 / 100" and su = "98 / 100"])
    show "98 / 100 \<le> sqrt (9604 / 10000)"
      by (rule real_le_rsqrt) (simp add: power2_eq_square)
    show "sqrt (9604 / 10000) \<le> 98 / 100"
      by (rule real_le_lsqrt) (simp_all add: power2_eq_square)
    show "round4 1 = 1" using round4_exact[of 10000] by simp
  qed (simp_all add: power2_eq_square)
  then show ?thesis unfolding assms by simp
qed

lemma denominator_step_lookup:
  "fst (denominator_step st sd) s = (if enters_map s st then Some (study_entry st) else sd s)"
  by (auto simp: denominator_step_def enters_map_def study_entry_def split: option.splits)

lemma find_snoc:
  "find P (xs @ [x]) = (case find P xs of None \<Rightarrow> (if P x then Some x else None) | Some y \<Rightarrow> Some y)"
  by (induction xs) auto

lemma build_study_denominators_lookup:
  "fst (build_study_denominators sts sd) s
     = (case find (enters_map s) (rev sts) of None \<Rightarrow> sd s | Some st \<Rightarrow> Some (study_entry st))"
proof (induction sts arbitrary: sd)
  case Nil
  then show ?case by simp
next
  case (Cons st sts)
  have "fst (build_study_denominators (st # sts) sd) s
          = fst (build_study_denominators sts (fst (denominator_step st sd))) s"
    by (simp add: split_def Let_def)
  also have "\<dots> = (case find (enters_map s) (rev sts) of
                      None \<Rightarrow> fst (denominator_step st sd) s
                    | Some st' \<Rightarrow> Some (study_entry st'))"
    by (rule Cons.IH)
  finally show ?case
    by (simp add: find_snoc denominator_step_lookup split: option.splits)
qed

lemma resolved_denominators_lookup:
  "resolved_denominators sts s = map_option study_entry (find (enters_map s) (rev sts))"
  by (simp add: resolved_denominators_def build_study_denominators_lookup split: option.splits)



subsection \<open>C10: a failed integrity assertion drops one group\<close>









subsection \<open>C6: the plausibility gate at 0.95\<close>

lemma validate_high:
  "95 / 100 < frequency m
     \<Longrightarrow> validate_frequency m = (False, [SuspiciouslyHigh (gene_symbol m) (frequency m)])"
  by (simp add: validate_frequency_def)

text \<open>
  Claim C6. A record whose frequency exceeds 0.95 fails \<^verbatim>\<open>_validate_frequency\<close>, which
  logs a warning and returns False; no record returned by the aggregator has such a
  frequency, and a group whose record is built with such a frequency gives no record and
  two warnings, no exception. A record with frequency 0.99 is rejected.
\<close>

theorem implausibly_high_frequency_rejected:
  assumes "95 / 100 < frequency m"
  shows "validate_frequency m = (False, [SuspiciouslyHigh (gene_symbol m) (frequency m)])
     \<and> m \<notin> set (fst (process_cbioportal_with_frequencies z muts sts))
     \<and> (\<forall>g. candidate z g = Inr m
            \<longrightarrow> sum_list (map snd (study_denominators (snd g))) \<noteq> 0
            \<longrightarrow> emit_group z g
                  = ([], [SuspiciouslyHigh (gene_symbol m) (frequency m),
                          RejectedImplausible (gene_symbol m) (protein_change m)
                            (cancer_type m) (frequency m)]))"
proof -
  note v = validate_high[OF assms]
  have "m \<notin> set (fst (process_cbioportal_with_frequencies z muts sts))"
  proof
    assume "m \<in> set (fst (process_cbioportal_with_frequencies z muts sts))"
    then have "fst (validate_frequency m)" by (rule process_member)
    then show False by (simp add: v)
  qed
  moreover have "emit_group z g
                  = ([], [SuspiciouslyHigh (gene_symbol m) (frequency m),
                          RejectedImplausible (gene_symbol m) (protein_change m)
                            (cancer_type m) (frequency m)])"
    if "candidate z g = Inr m" "sum_list (map snd (study_denominators (snd g))) \<noteq> 0" for g
    using that by (simp add: emit_group_def v)
  ultimately show ?thesis using v by blast
qed

lemma candidate_atm_one:
  assumes "z = 196 / 100"
  shows "candidate z (atm_group [''tiny:S1'']) = Inr atm_record"
  using assms
  by (simp add: candidate_def atm_group_def atm_record_def post_init_def split_def Let_def
      wilson_1_1)

lemma resolved_tiny:
  "resolved_denominators [tiny_study]
     = [''tiny'' \<mapsto> \<lparr>total_samples = 1, denom_cancer_type = ''Lung''\<rparr>]"
  by (simp add: resolved_denominators_def tiny_study_def eval_defs)

lemma groups_atm_one:
  "aggregated_groups [tiny_study] [atm_row ''S1''] = [atm_group [''tiny:S1'']]"
  unfolding aggregated_groups_def resolved_tiny
  by (simp add: atm_row_def atm_group_def eval_defs)

theorem implausibly_high_frequency_rejected_witness:
  "95 / 100 < frequency synthetic_record
   \<and> frequency synthetic_record = 99 / 100
   \<and> validate_frequency synthetic_record = (False, [SuspiciouslyHigh ''ATM'' (99 / 100)])
   \<and> candidate (196 / 100) (atm_group [''tiny:S1'']) = Inr atm_record
   \<and> 95 / 100 < frequency atm_record
   \<and> emit_group (196 / 100) (atm_group [''tiny:S1''])
       = ([], [SuspiciouslyHigh ''ATM'' 1, RejectedImplausible ''ATM'' ''R337C'' ''Lung'' 1])
   \<and> fst (process_cbioportal_with_frequencies (196 / 100) [atm_row ''S1''] [tiny_study]) = []"
proof -
  have s: "95 / 100 < frequency synthetic_record" "frequency synthetic_record = 99 / 100"
    by (simp_all add: synthetic_record_def)
  have a: "95 / 100 < frequency atm_record" by (simp add: atm_record_def)
  have c: "candidate (196 / 100) (atm_group [''tiny:S1'']) = Inr atm_record"
    by (rule candidate_atm_one[OF refl])
  have n: "sum_list (map snd (study_denominators (snd (atm_group [''tiny:S1''])))) \<noteq> 0"
    by (simp add: atm_group_def)
  from implausibly_high_frequency_rejected[OF s(1)]
  have 1: "validate_frequency synthetic_record = (False, [SuspiciouslyHigh ''ATM'' (99 / 100)])"
    by (simp add: synthetic_record_def)
  from implausibly_high_frequency_rejected[OF a, of "196 / 100"]
  have "candidate (196 / 100) (atm_group [''tiny:S1'']) = Inr atm_record
          \<longrightarrow> sum_list (map snd (study_denominators (snd (atm_group [''tiny:S1''])))) \<noteq> 0
          \<longrightarrow> emit_group (196 / 100) (atm_group [''tiny:S1''])
                = ([], [SuspiciouslyHigh (gene_symbol atm_record) (frequency atm_record),
                        RejectedImplausible (gene_symbol atm_record) (protein_change atm_record)
                          (cancer_type atm_record) (frequency atm_record)])"
    by blast
  with c n have "emit_group (196 / 100) (atm_group [''tiny:S1''])
                = ([], [SuspiciouslyHigh (gene_symbol atm_record) (frequency atm_record),
                        RejectedImplausible (gene_symbol atm_record) (protein_change atm_record)
                          (cancer_type atm_record) (frequency atm_record)])"
    by blast
  then have 2: "emit_group (196 / 100) (atm_group [''tiny:S1''])
       = ([], [SuspiciouslyHigh ''ATM'' 1, RejectedImplausible ''ATM'' ''R337C'' ''Lung'' 1])"
    by (simp add: atm_record_def)
  have 3: "fst (process_cbioportal_with_frequencies (196 / 100) [atm_row ''S1''] [tiny_study]) = []"
    unfolding fst_process groups_atm_one using 2 by (simp add: split_def)
  show ?thesis using s a c 1 2 3 by blast
qed

subsection \<open>C5: the end-to-end scenario\<close>

lemma wilson_3_450:
  assumes "z = 196 / 100"
  shows "calculate_wilson_ci z 3 450 = (67 / 10000, 23 / 10000, 194 / 10000)"
proof -
  have "calculate_wilson_ci (196 / 100) 3 450
          = (67 / 10000, of_int 23 / 10000, of_int 194 / 10000)"
  proof (rule calculate_wilson_ci_eval[where p = "3 / 450"
        and d = "1 + (196 / 100)\<^sup>2 / 450"
        and c = "(3 / 450 + (196 / 100)\<^sup>2 / (2 * 450)) / (1 + (196 / 100)\<^sup>2 / 450)"
        and r = "3 / 450 * (1 - 3 / 450) / 450 + (196 / 100)\<^sup>2 / (4 * 450\<^sup>2)"
        and sl = "2757 / 625000" and su = "441121 / 100000000"])
    show "2757 / 625000 \<le> sqrt (3 / 450 * (1 - 3 / 450) / 450 + (196 / 100)\<^sup>2 / (4 * 450\<^sup>2))"
      by (rule real_le_rsqrt) (simp add: power2_eq_square)
    show "sqrt (3 / 450 * (1 - 3 / 450) / 450 + (196 / 100)\<^sup>2 / (4 * 450\<^sup>2)) \<le> 441121 / 100000000"
      by (rule real_le_lsqrt) (simp_all add: power2_eq_square)
    show "round4 (3 / 450) = 67 / 10000"
      using round4_eqI[of 67 "3 / 450"] by simp
  qed (simp_all add: power2_eq_square)
  then show ?thesis unfolding assms by simp
qed

lemma wilson_3_450_ppf:
  assumes "z = 1959963984540054 / 1000000000000000"
  shows "calculate_wilson_ci z 3 450 = (67 / 10000, 23 / 10000, 194 / 10000)"
proof -
  have "calculate_wilson_ci (1959963984540054 / 1000000000000000) 3 450
          = (67 / 10000, of_int 23 / 10000, of_int 194 / 10000)"
  proof (rule calculate_wilson_ci_eval[where p = "3 / 450"
        and d = "1 + (1959963984540054 / 1000000000000000)\<^sup>2 / 450"
        and c = "(3 / 450 + (1959963984540054 / 1000000000000000)\<^sup>2 / (2 * 450)) / (1 + (1959963984540054 / 1000000000000000)\<^sup>2 / 450)"
        and r = "3 / 450 * (1 - 3 / 450) / 450 + (1959963984540054 / 1000000000000000)\<^sup>2 / (4 * 450\<^sup>2)"
        and sl = "220559 / 50000000" and su = "441119 / 100000000"])
    show "220559 / 50000000 \<le> sqrt (3 / 450 * (1 - 3 / 450) / 450 + (1959963984540054 / 1000000000000000)\<^sup>2 / (4 * 450\<^sup>2))"
      by (rule real_le_rsqrt) (simp add: power2_eq_square)
    show "sqrt (3 / 450 * (1 - 3 / 450) / 450 + (1959963984540054 / 1000000000000000)\<^sup>2 / (4 * 450\<^sup>2)) \<le> 441119 / 100000000"
      by (rule real_le_lsqrt) (simp_all add: power2_eq_square)
    show "round4 (3 / 450) = 67 / 10000"
      using round4_eqI[of 67 "3 / 450"] by simp
  qed (simp_all add: power2_eq_square)
  then show ?thesis unfolding assms by simp
qed

lemma resolved_skcm:
  "resolved_denominators [skcm_study]
     = [''skcm_study'' \<mapsto> \<lparr>total_samples = 450, denom_cancer_type = ''Melanoma''\<rparr>]"
  by (simp add: resolved_denominators_def skcm_study_def eval_defs)

lemma groups_braf: "aggregated_groups [skcm_study] braf_rows = [braf_group]"
  unfolding aggregated_groups_def resolved_skcm
  by (simp add: braf_rows_def braf_row_def braf_group_def eval_defs)

lemma candidate_braf:
  assumes "z = 196 / 100 \<or> z = norm_ppf_975"
  shows "candidate z braf_group = Inr braf_candidate"
  using assms
  by (auto simp: candidate_def braf_group_def braf_candidate_def post_init_def split_def Let_def
      norm_ppf_975_def wilson_3_450 wilson_3_450_ppf)

lemma validate_braf_candidate:
  "validate_frequency braf_candidate = (False, [FrequencyTooLow ''BRAF'' ''V600E''])"
  by (simp add: validate_frequency_def braf_candidate_def known_hotspots_def)

lemma build_skcm_log:
  "snd (build_study_denominators [skcm_study] Map.empty) = [StudyInfo ''skcm_study'' 450]"
  by (simp add: skcm_study_def eval_defs)

lemma aggregate_braf_log:
  "snd (aggregate_mutations (resolved_denominators [skcm_study]) braf_rows []) = []"
  unfolding resolved_skcm by (simp add: braf_rows_def braf_row_def eval_defs)

lemma process_braf:
  assumes "z = 196 / 100 \<or> z = norm_ppf_975"
  shows "process_cbioportal_with_frequencies z braf_rows [skcm_study]
     = ([], [StudyInfo ''skcm_study'' 450, FrequencyTooLow ''BRAF'' ''V600E'',
             RejectedImplausible ''BRAF'' ''V600E'' ''Melanoma'' (67 / 10000)])"
proof -
  have n: "sum_list (map snd (study_denominators (snd braf_group))) \<noteq> 0"
    by (simp add: braf_group_def)
  have e: "emit_group z braf_group
             = ([], [FrequencyTooLow ''BRAF'' ''V600E'',
                     RejectedImplausible ''BRAF'' ''V600E'' ''Melanoma'' (67 / 10000)])"
    using n by (simp add: emit_group_def candidate_braf[OF assms] validate_braf_candidate)
       (simp add: braf_candidate_def)
  have "fst (process_cbioportal_with_frequencies z braf_rows [skcm_study]) = []"
    by (simp add: fst_process groups_braf e split_def)
  moreover have "snd (process_cbioportal_with_frequencies z braf_rows [skcm_study])
     = [StudyInfo ''skcm_study'' 450, FrequencyTooLow ''BRAF'' ''V600E'',
             RejectedImplausible ''BRAF'' ''V600E'' ''Melanoma'' (67 / 10000)]"
    unfolding snd_process build_skcm_log aggregate_braf_log groups_braf
    by (simp add: e split_def)
  ultimately show ?thesis by (simp add: prod_eq_iff)
qed

text \<open>
  Claim C5 says that the three BRAF V600E rows of the melanoma study of 450 samples give
  exactly one record. The aggregator returns no record for them.
\<close>

theorem braf_scenario_returns_no_record:
  "fst (process_cbioportal_with_frequencies (196 / 100) braf_rows [skcm_study]) = []
   \<and> fst (process_cbioportal_with_frequencies norm_ppf_975 braf_rows [skcm_study]) = []"
  using process_braf[of "196 / 100"] process_braf[of norm_ppf_975] by simp

text \<open>
  Claim C5, amended. The three rows form one group, and the record built for it has
  \<^verbatim>\<open>samples_with_mutation = 3\<close>, \<^verbatim>\<open>total_samples_tested = 450\<close>, frequency 0.0067, the
  Wilson interval 0.0023 to 0.0194 and the tier \<^verbatim>\<open>population_frequency\<close>; it passes the
  assertions of the constructor. \<^verbatim>\<open>_validate_frequency\<close> rejects it, because 0.0067 is
  below a tenth of the 0.30 that the hotspot table gives for BRAF V600E, so the aggregator
  logs two warnings and returns the empty list.
\<close>

theorem braf_scenario_candidate_rejected:
  "aggregated_groups [skcm_study] braf_rows = [braf_group]
   \<and> candidate (196 / 100) braf_group = Inr braf_candidate
   \<and> candidate norm_ppf_975 braf_group = Inr braf_candidate
   \<and> validate_frequency braf_candidate = (False, [FrequencyTooLow ''BRAF'' ''V600E''])
   \<and> process_cbioportal_with_frequencies (196 / 100) braf_rows [skcm_study]
       = ([], [StudyInfo ''skcm_study'' 450, FrequencyTooLow ''BRAF'' ''V600E'',
               RejectedImplausible ''BRAF'' ''V600E'' ''Melanoma'' (67 / 10000)])
   \<and> process_cbioportal_with_frequencies norm_ppf_975 braf_rows [skcm_study]
       = ([], [StudyInfo ''skcm_study'' 450, FrequencyTooLow ''BRAF'' ''V600E'',
               RejectedImplausible ''BRAF'' ''V600E'' ''Melanoma'' (67 / 10000)])"
  using groups_braf candidate_braf[of "196 / 100"] candidate_braf[of norm_ppf_975]
    validate_braf_candidate process_braf[of "196 / 100"] process_braf[of norm_ppf_975]
  by blast

subsection \<open>C8: the hotspot check and the cancer type\<close>

lemma resolved_coad:
  "resolved_denominators [coad_study]
     = [''coad_study'' \<mapsto> \<lparr>total_samples = 100, denom_cancer_type = ''Colorectal''\<rparr>]"
  by (simp add: resolved_denominators_def coad_study_def eval_defs)

lemma validate_braf_coad:
  "validate_frequency braf_coad_record = (False, [FrequencyTooLow ''BRAF'' ''V600E''])"
  by (simp add: validate_frequency_def braf_coad_record_def known_hotspots_def)

lemma process_braf_coad:
  assumes "z = 196 / 100"
  shows "process_cbioportal_with_frequencies z [braf_coad_row] [coad_study]
     = ([], [StudyInfo ''coad_study'' 100, FrequencyTooLow ''BRAF'' ''V600E'',
             RejectedImplausible ''BRAF'' ''V600E'' ''Colorectal'' (1 / 100)])"
  using assms
  by (simp add: process_cbioportal_with_frequencies_def coad_study_def braf_coad_row_def
      eval_defs wilson_1_100)

text \<open>
  Claim C8 says that the hotspot check rejects a record only when the table documents a
  minimum frequency for the cancer type of the record. The table lists Melanoma and
  Thyroid for BRAF V600E, and the loop of \<^verbatim>\<open>_validate_frequency\<close> never reads
  \<^verbatim>\<open>cancer_types\<close>: a BRAF V600E record of a colorectal study, with frequency 0.01, is
  rejected by the hotspot check, and the aggregator returns no record for it.
\<close>

theorem hotspot_check_ignores_cancer_type:
  "map_of known_hotspots (''BRAF'', ''V600E'')
     = Some \<lparr>min_freq = 30 / 100, cancer_types = [''Melanoma'', ''Thyroid'']\<rparr>
   \<and> cancer_type braf_coad_record = ''Colorectal''
   \<and> ''Colorectal'' \<notin> set [''Melanoma'', ''Thyroid'']
   \<and> validate_frequency braf_coad_record = (False, [FrequencyTooLow ''BRAF'' ''V600E''])
   \<and> process_cbioportal_with_frequencies (196 / 100) [braf_coad_row] [coad_study]
       = ([], [StudyInfo ''coad_study'' 100, FrequencyTooLow ''BRAF'' ''V600E'',
               RejectedImplausible ''BRAF'' ''V600E'' ''Colorectal'' (1 / 100)])"
  using validate_braf_coad process_braf_coad[OF refl]
  by (simp add: known_hotspots_def braf_coad_record_def)

subsection \<open>C3: the Wilson interval\<close>







subsection \<open>C7: the sample-denominator resolvers\<close>

lemma sample_count_priority:
  "sample_count st =
     (case sequencedSampleCount st of
        Some n \<Rightarrow> if n \<noteq> 0 then n else get_or (allSampleCount st) 0
      | None \<Rightarrow> get_or (allSampleCount st) 0)"
  by (simp add: sample_count_def or_int_def get_or_def split: option.splits)

lemma clean_sample_count_eq: "clean_sample_count st = sample_count st"
  by (simp add: clean_sample_count_def sample_count_def or_int_def)

lemma clean_study_info_step_eq: "clean_study_info_step st si = fst (denominator_step st si)"
  by (simp add: clean_study_info_step_def denominator_step_def clean_sample_count_eq
      split: option.splits)

lemma clean_study_info_eq: "clean_study_info sts si = fst (build_study_denominators sts si)"
  by (induction sts arbitrary: si) (simp_all add: clean_study_info_step_eq split_def Let_def)

lemma gold_sample_count_first_nonzero:
  "gold_sample_count st =
     (case find (\<lambda>n. n \<noteq> 0)
             [get_or (numberOfSamples st) 0, get_or (allSampleCount st) 0,
              get_or (cnaSampleCount st) 0, get_or (sequencedSampleCount st) 0] of
        Some n \<Rightarrow> n
      | None \<Rightarrow> 100)"
  by (simp add: gold_sample_count_def or_int_def)

lemma extract_study_sample_counts_last:
  "extract_study_sample_counts (sts @ [st]) counts (gold_cancer_type st)
     = Some (gold_sample_count st)"
  by (induction sts arbitrary: counts) simp_all

text \<open>
  Claim C7 says that the resolver prefers the sequenced sample count to the count of all
  samples and never gives a study without a count a default. That holds of the resolvers
  of \<^verbatim>\<open>ProductionAggregator\<close> and \<^verbatim>\<open>CleanAggregator\<close>, and not of
  \<^verbatim>\<open>MutationAggregator._extract_study_sample_counts\<close>, which the claim also cites: a study
  without any count gets 100 there, and a study with 5 sequenced samples and 10 samples in
  all gets 10.
\<close>

theorem gold_resolver_defaults_to_100:
  "sample_count uncounted_study = 0
   \<and> resolved_denominators [uncounted_study] ''no_counts'' = None
   \<and> gold_sample_count uncounted_study = 100
   \<and> extract_study_sample_counts [uncounted_study] Map.empty (Some ''Breast'') = Some 100
   \<and> sample_count two_counts_study = 5
   \<and> gold_sample_count two_counts_study = 10"
  by (simp add: uncounted_study_def two_counts_study_def sample_count_def gold_sample_count_def
      gold_cancer_type_def resolved_denominators_def denominator_step_def or_int_def get_or_def)

text \<open>
  Claim C7, amended. In \<^verbatim>\<open>ProductionAggregator\<close> and \<^verbatim>\<open>CleanAggregator\<close> the count of a
  study is its sequenced sample count when that is present and not 0, and otherwise its
  count of all samples (0 when absent); the denominator dict maps a study identifier to
  the entry of the last study of the list that has this identifier, a non-empty one, and
  a positive count, so every entry is positive and a study whose counts are 0 or absent
  enters with no value at all. \<^verbatim>\<open>MutationAggregator._extract_study_sample_counts\<close> takes
  the first non-zero of \<^verbatim>\<open>numberOfSamples\<close>, \<^verbatim>\<open>allSampleCount\<close>, \<^verbatim>\<open>cnaSampleCount\<close> and
  \<^verbatim>\<open>sequencedSampleCount\<close>, and 100 when there is none, and stores every study under its
  cancer type.
\<close>

theorem denominator_resolvers:
  "sample_count st =
     (case sequencedSampleCount st of
        Some n \<Rightarrow> if n \<noteq> 0 then n else get_or (allSampleCount st) 0
      | None \<Rightarrow> get_or (allSampleCount st) 0)
   \<and> clean_sample_count st = sample_count st
   \<and> resolved_denominators sts s = map_option study_entry (find (enters_map s) (rev sts))
   \<and> clean_study_info sts Map.empty = resolved_denominators sts
   \<and> (resolved_denominators sts s = Some d \<longrightarrow> 0 < total_samples d \<and> s \<noteq> [])
   \<and> (get_or (sequencedSampleCount st) 0 = 0 \<and> get_or (allSampleCount st) 0 = 0
        \<longrightarrow> \<not> enters_map s st)
   \<and> gold_sample_count st =
       (case find (\<lambda>n. n \<noteq> 0)
               [get_or (numberOfSamples st) 0, get_or (allSampleCount st) 0,
                get_or (cnaSampleCount st) 0, get_or (sequencedSampleCount st) 0] of
          Some n \<Rightarrow> n
        | None \<Rightarrow> 100)
   \<and> extract_study_sample_counts (sts @ [st]) counts (gold_cancer_type st)
       = Some (gold_sample_count st)"
proof -
  have p: "0 < total_samples d \<and> s \<noteq> []" if "resolved_denominators sts s = Some d"
  proof -
    from that obtain st' where "find (enters_map s) (rev sts) = Some st'" "d = study_entry st'"
      by (auto simp: resolved_denominators_lookup)
    then show ?thesis by (auto simp: find_Some_iff enters_map_def study_entry_def)
  qed
  have n: "\<not> enters_map s st"
    if "get_or (sequencedSampleCount st) 0 = 0 \<and> get_or (allSampleCount st) 0 = 0"
    using that by (simp add: enters_map_def sample_count_def or_int_def)
  have c: "clean_study_info sts Map.empty = resolved_denominators sts"
    by (simp add: clean_study_info_eq resolved_denominators_def)
  show ?thesis
    using sample_count_priority[of st] clean_sample_count_eq[of st]
      resolved_denominators_lookup[of sts s] c p n gold_sample_count_first_nonzero[of st]
      extract_study_sample_counts_last[of sts st counts]
    by blast
qed

theorem denominator_resolvers_witness:
  "resolved_denominators [uncounted_study, brca_study] ''brca_study''
     = Some \<lparr>total_samples = 100, denom_cancer_type = ''Breast''\<rparr>
   \<and> 0 < total_samples \<lparr>total_samples = 100, denom_cancer_type = ''Breast''\<rparr>
   \<and> get_or (sequencedSampleCount uncounted_study) 0 = 0
   \<and> get_or (allSampleCount uncounted_study) 0 = 0
   \<and> \<not> enters_map ''no_counts'' uncounted_study
   \<and> resolved_denominators [uncounted_study, brca_study] ''no_counts'' = None
   \<and> sample_count two_counts_study = 5"
proof -
  note t = denominator_resolvers[of _ "[uncounted_study, brca_study]"]
  have r: "resolved_denominators [uncounted_study, brca_study] ''brca_study''
     = Some \<lparr>total_samples = 100, denom_cancer_type = ''Breast''\<rparr>"
    by (simp add: resolved_denominators_def uncounted_study_def brca_study_def
        denominator_step_def sample_count_def or_int_def get_or_def)
  have z: "get_or (sequencedSampleCount uncounted_study) 0 = 0
           \<and> get_or (allSampleCount uncounted_study) 0 = 0"
    by (simp add: uncounted_study_def get_or_def)
  from t[of uncounted_study "''brca_study''" "\<lparr>total_samples = 100, denom_cancer_type = ''Breast''\<rparr>"] r
  have 1: "0 < total_samples \<lparr>total_samples = 100, denom_cancer_type = ''Breast''\<rparr>"
    by blast
  from t[of uncounted_study "''no_counts''"] z
  have 2: "\<not> enters_map ''no_counts'' uncounted_study" by blast
  from t[of two_counts_study "''no_counts''"]
  have "resolved_denominators [uncounted_study, brca_study] ''no_counts''
          = map_option study_entry (find (enters_map ''no_counts'') (rev [uncounted_study, brca_study]))"
    by blast
  then have 3: "resolved_denominators [uncounted_study, brca_study] ''no_counts'' = None"
    by (simp add: enters_map_def uncounted_study_def brca_study_def sample_count_def
        or_int_def get_or_def)
  from t[of two_counts_study "''no_counts''"]
  have "sample_count two_counts_study =
     (case sequencedSampleCount two_counts_study of
        Some n \<Rightarrow> if n \<noteq> 0 then n else get_or (allSampleCount two_counts_study) 0
      | None \<Rightarrow> get_or (allSampleCount two_counts_study) 0)"
    by blast
  then have 4: "sample_count two_counts_study = 5" by (simp add: two_counts_study_def)
  show ?thesis using r z 1 2 3 4 by blast
qed

subsection \<open>C9: the harmonizer applied to its own output\<close>









lemma takeWhile_digits:
  assumes "\<forall>c \<in> set ds. is_digit c" "suf = [] \<or> \<not> is_digit (hd suf)"
  shows "takeWhile is_digit (ds @ suf) = ds" "dropWhile is_digit (ds @ suf) = suf"
  using assms by (cases suf; simp add: takeWhile_append2 dropWhile_append2)+



lemma digit_not_space: "is_digit c \<Longrightarrow> \<not> is_space c"
  by (auto simp: is_digit_def is_space_def)






lemma upper_lower_char: "is_upper c \<Longrightarrow> is_lower (lower_char c)"
  by (simp add: is_upper_def; elim disjE; simp add: lower_char_def is_lower_def)
















lemma not_three_letter_first: "\<not> is_upper c0 \<Longrightarrow> \<not> three_letter (take 3 (c0 # rest))"
  by (auto simp: three_letter_def split: list.splits)





lemma shape_pattern8:
  assumes "ds \<noteq> []" "\<forall>c \<in> set ds. is_digit c" "\<not> is_digit b" "b \<noteq> CHR ''_''"
  shows "pattern8 (c0 # ds @ b # after) = None"
  using assms
  by (simp add: pattern8_def takeWhile_digits[of ds "b # after"] Let_def split: list.splits)

















lemma dollar_Nil [simp]: "dollar []"
  by (simp add: dollar_def)











lemma pattern2_result:
  assumes "pattern2 s = Some (r, n, a)"
  shows "three_letter r \<and> (three_letter a \<or> a = ''*'')"
  using assms by (auto simp: pattern2_def Let_def split: if_splits)











end
